theory Spec2Isabelle
  imports Complex_Main
begin

section \<open>Common values\<close>

text \<open>
  The program is Python. Its float values (timestamps of \<^verbatim>\<open>time.time()\<close>, the
  transition progress) are values of \<^typ>\<open>real\<close>. Exceptions are values of \<open>py_error\<close>; a
  method that may raise returns the outcome together with the object as the exception
  leaves it.
\<close>

datatype py_error =
  ZeroDivisionError | RuntimeError | ValueError | KeyError | IndexError | IOError | OtherError

text \<open>\<^verbatim>\<open>int(x)\<close> on a float truncates towards zero.\<close>

definition py_int :: "real \<Rightarrow> int" where
  "py_int x = (if 0 \<le> x then \<lfloor>x\<rfloor> else \<lceil>x\<rceil>)"

text \<open>
  The configuration class \<^verbatim>\<open>Config\<close> is not among the source files. The values the code
  reads from it are parameters, gathered in this record, one field per key that is read
  (a missing \<^verbatim>\<open>negative_prompt\<close> key is \<open>None\<close>).
\<close>

record config =
  display_fps :: real
  animation_transition_duration :: real
  render_cfg_width :: int
  render_cfg_height :: int
  stock_update_interval_minutes :: real
  prompts_negative_prompt :: "string option"

section \<open>Floats and images\<close>

text \<open>
  The transition progress is a Python float that the code accumulates with \<^verbatim>\<open>+=\<close>. Float
  values are reals, but float operations round, and the sum of ten times \<^verbatim>\<open>0.1\<close> is not
  \<^verbatim>\<open>1.0\<close>. The rounded multiplication, division and addition are therefore parameters
  of the model: nothing is assumed about how they round. (Infinities and NaN have no
  counterpart here; the clamp \<^verbatim>\<open>min(1.0, _)\<close> maps an infinite sum to \<^verbatim>\<open>1.0\<close>.)
\<close>

record float_ops =
  fl_mul :: "real \<Rightarrow> real \<Rightarrow> real"
  fl_div :: "real \<Rightarrow> real \<Rightarrow> real"
  fl_add :: "real \<Rightarrow> real \<Rightarrow> real"

text \<open>
  A numpy array as far as the code looks at it: the size of its third axis and its
  contents. The chart of a snapshot with history is read back from the PNG that
  matplotlib saves, which has an alpha channel, so \<^verbatim>\<open>render_chart_array\<close> returns four
  channels there (lines 119 to 126 of \<^verbatim>\<open>chart_renderer.py\<close>; the blank chart has three).
\<close>

record 'arr ndarray =
  channels :: nat
  pixels :: 'arr

text \<open>
  Images: \<^verbatim>\<open>Image.fromarray(arr)\<close> of a chart array (the conversion of the array that the
  renderer returned is taken to succeed), an image returned by the diffusion pipe, and
  \<^verbatim>\<open>Image.new('RGB', (w, h), colour)\<close>, which raises \<^verbatim>\<open>ValueError\<close> on a negative size.
  \<open>array_channels img\<close> is the size of the third axis of \<^verbatim>\<open>np.array(img)\<close>: an image from
  an array has the array's channels, the pipe returns RGB images, and the new image is RGB.
\<close>

datatype ('arr, 'gen) image =
  Fromarray "'arr ndarray"
  | Pipe_image 'gen
  | New_rgb int int "int \<times> int \<times> int"

fun array_channels :: "('arr, 'gen) image \<Rightarrow> nat" where
  "array_channels (Fromarray a) = channels a"
| "array_channels (Pipe_image g) = 3"
| "array_channels (New_rgb w h colour) = 3"

definition image_new :: "int \<Rightarrow> int \<Rightarrow> int \<times> int \<times> int \<Rightarrow> py_error + ('arr, 'gen) image" where
  "image_new w h colour = (if w < 0 \<or> h < 0 then Inl ValueError else Inr (New_rgb w h colour))"

section \<open>SurfaceManager (src/display/surface_manager.py)\<close>

text \<open>
  Pygame surfaces are kept symbolic, one constructor per pygame call the class makes:
  \<^verbatim>\<open>pygame.surfarray.make_surface(np.array(img).swapaxes(0, 1))\<close>, \<^verbatim>\<open>pygame.Surface((w, h))\<close>,
  \<^verbatim>\<open>pygame.transform.smoothscale(s, (w, h))\<close>, \<^verbatim>\<open>s.set_alpha(a)\<close> and
  \<^verbatim>\<open>dest.blit(src, (0, 0))\<close>. A surface and a PIL image define neither \<^verbatim>\<open>__bool__\<close> nor
  \<^verbatim>\<open>__len__\<close>, so \<^verbatim>\<open>if self.x:\<close> on such an attribute tests \<^verbatim>\<open>x is not None\<close>.
\<close>

datatype 'img surface =
  Make_surface 'img
  | Surface int int
  | Smoothscale "'img surface" int int
  | Set_alpha "'img surface" int
  | Blit "'img surface" "'img surface"

text \<open>
  \<^verbatim>\<open>make_surface\<close> takes a three-dimensional array only when its third axis has size 3
  and raises \<^verbatim>\<open>ValueError\<close> otherwise, as on the four channels of an RGBA image.
\<close>

definition make_surface :: "('arr, 'gen) image \<Rightarrow> py_error + ('arr, 'gen) image surface" where
  "make_surface img = (if array_channels img = 3 then Inr (Make_surface img) else Inl ValueError)"

record 'img surface_manager =
  display_width :: int
  display_height :: int
  render_width :: int
  render_height :: int
  sm_debug :: bool
  background_surface :: "'img surface option"
  previous_background :: "'img surface option"
  transition_progress :: real
  pending_background :: "'img option"

text \<open>\<^verbatim>\<open>SurfaceManager.__init__\<close> (the snapshot directory and render metadata are left out).\<close>

definition surface_manager_init :: "int \<Rightarrow> int \<Rightarrow> int \<Rightarrow> int \<Rightarrow> bool \<Rightarrow> 'img surface_manager" where
  "surface_manager_init dw dh rw rh dbg =
     \<lparr> display_width = dw, display_height = dh, render_width = rw, render_height = rh,
       sm_debug = dbg, background_surface = None, previous_background = None,
       transition_progress = 1, pending_background = None \<rparr>"

text \<open>\<^verbatim>\<open>queue_background_update\<close>: one assignment (and a debug print).\<close>

definition queue_background_update :: "'img \<Rightarrow> 'img surface_manager \<Rightarrow> 'img surface_manager" where
  "queue_background_update image_data s = s\<lparr>pending_background := Some image_data\<rparr>"

text \<open>
  \<^verbatim>\<open>update_background\<close>. The previous background and the progress are assigned first
  (lines 64 to 66); then \<^verbatim>\<open>make_surface\<close> may raise, before \<^verbatim>\<open>background_surface\<close> is
  assigned (lines 69 and 70). In debug mode the method ends with \<^verbatim>\<open>save_debug_image\<close>,
  which writes a file and may raise; \<open>save_ok\<close> says whether that write succeeds.
\<close>

definition update_background ::
  "bool \<Rightarrow> ('arr, 'gen) image \<Rightarrow> ('arr, 'gen) image surface_manager
     \<Rightarrow> (py_error + unit) \<times> ('arr, 'gen) image surface_manager" where
  "update_background save_ok image_data s =
     (let s1 = (case background_surface s of
                  Some b \<Rightarrow> s\<lparr>previous_background := Some b, transition_progress := 0\<rparr>
                | None \<Rightarrow> s)
      in case make_surface image_data of
           Inl e \<Rightarrow> (Inl e, s1)
         | Inr surf \<Rightarrow>
             (let s2 = s1\<lparr>background_surface := Some surf\<rparr>
              in if sm_debug s2 \<and> \<not> save_ok then (Inl IOError, s2) else (Inr (), s2)))"

text \<open>\<^verbatim>\<open>apply_pending_updates\<close>: the slot is cleared after \<^verbatim>\<open>update_background\<close> returns.\<close>

definition apply_pending_updates ::
  "bool \<Rightarrow> ('arr, 'gen) image surface_manager
     \<Rightarrow> (py_error + unit) \<times> ('arr, 'gen) image surface_manager" where
  "apply_pending_updates save_ok s =
     (case pending_background s of
        None \<Rightarrow> (Inr (), s)
      | Some p \<Rightarrow>
          (case update_background save_ok p s of
             (Inl e, s') \<Rightarrow> (Inl e, s')
           | (Inr _, s') \<Rightarrow> (Inr (), s'\<lparr>pending_background := None\<rparr>)))"

text \<open>
  \<^verbatim>\<open>get_display_background\<close>, with the float operations \<open>fp\<close>. The division
  \<^verbatim>\<open>1.0 / (fps * duration)\<close> raises \<^verbatim>\<open>ZeroDivisionError\<close> on a zero product, before anything
  is assigned.
\<close>

definition get_display_background ::
  "float_ops \<Rightarrow> config \<Rightarrow> 'img surface_manager
     \<Rightarrow> (py_error + 'img surface option) \<times> 'img surface_manager" where
  "get_display_background fp cfg s =
     (case background_surface s of
        None \<Rightarrow> (Inr None, s)
      | Some cur \<Rightarrow>
          (case previous_background s of
             Some prev \<Rightarrow>
               if transition_progress s < 1 then
                 (let fps = display_fps cfg; duration = animation_transition_duration cfg
                  in if fl_mul fp fps duration = 0 then (Inl ZeroDivisionError, s)
                     else
                       (let s' = s\<lparr>transition_progress :=
                                      min 1 (fl_add fp (transition_progress s)
                                               (fl_div fp 1 (fl_mul fp fps duration)))\<rparr>;
                            transition = Surface (display_width s') (display_height s');
                            prev_scaled = Smoothscale prev (display_width s') (display_height s');
                            transition1 = Blit transition prev_scaled;
                            current_scaled = Smoothscale cur (display_width s') (display_height s');
                            current_alpha =
                              Set_alpha current_scaled
                                (py_int (fl_mul fp 255 (transition_progress s')))
                        in (Inr (Some (Blit transition1 current_alpha)), s')))
               else (Inr (Some (Smoothscale cur (display_width s) (display_height s))), s)
           | None \<Rightarrow> (Inr (Some (Smoothscale cur (display_width s) (display_height s))), s)))"

text \<open>The states a surface manager can be in: from the constructor, by its methods.\<close>

inductive reachable_sm ::
  "float_ops \<Rightarrow> config \<Rightarrow> ('arr, 'gen) image surface_manager \<Rightarrow> bool"
  for fp :: float_ops and cfg :: config where
  init: "reachable_sm fp cfg (surface_manager_init dw dh rw rh dbg)"
| queue: "reachable_sm fp cfg s \<Longrightarrow> reachable_sm fp cfg (queue_background_update img s)"
| apply_pending: "reachable_sm fp cfg s \<Longrightarrow> reachable_sm fp cfg (snd (apply_pending_updates ok s))"
| update: "reachable_sm fp cfg s \<Longrightarrow> reachable_sm fp cfg (snd (update_background ok img s))"
| frame: "reachable_sm fp cfg s \<Longrightarrow> reachable_sm fp cfg (snd (get_display_background fp cfg s))"

section \<open>StockFetcher.fetch_data (src/stock/stock_fetcher.py)\<close>

text \<open>
  A snapshot is the result dictionary of \<^verbatim>\<open>fetch_data\<close>; it always has its fourteen keys,
  so \<^verbatim>\<open>if stock_data:\<close> and \<^verbatim>\<open>if self.last_data:\<close> test for \<^verbatim>\<open>None\<close>. What the network
  calls and the debug print inside the \<^verbatim>\<open>try\<close> block do is the input \<open>yf_outcome\<close>: an
  exception before \<^verbatim>\<open>self.last_data = result\<close>, a completed block, or an exception of
  the debug print after that assignment (caught by the same handler).
\<close>

datatype 'snap yf_outcome = Fetch_raises | Fetched 'snap | Print_raises 'snap

record 'snap stock_fetcher =
  sf_debug :: bool
  last_data :: "'snap option"

definition fetch_data ::
  "'snap yf_outcome \<Rightarrow> 'snap stock_fetcher \<Rightarrow> 'snap option \<times> 'snap stock_fetcher" where
  "fetch_data yf f =
     (case yf of
        Fetched result \<Rightarrow> (Some result, f\<lparr>last_data := Some result\<rparr>)
      | Print_raises result \<Rightarrow>
          (let f' = f\<lparr>last_data := Some result\<rparr>
           in case last_data f' of Some d \<Rightarrow> (Some d, f') | None \<Rightarrow> (None, f'))
      | Fetch_raises \<Rightarrow>
          (case last_data f of Some d \<Rightarrow> (Some d, f) | None \<Rightarrow> (None, f)))"

section \<open>SimplifiedDiffusionPipeline.generate (src/diffusion/simplified_pipeline.py)\<close>

datatype device = Cpu | Cuda | Mps

record diffusion_pipeline =
  dp_debug :: bool
  device :: device
  pipe_loaded :: bool
  inference_steps :: int
  guidance_scale :: real

text \<open>The keyword arguments of the call \<^verbatim>\<open>self.pipe(...)\<close>.\<close>

record pipe_args =
  arg_prompt :: string
  arg_negative_prompt :: string
  arg_num_inference_steps :: int
  arg_guidance_scale :: real
  arg_seed :: nat
  arg_height :: int
  arg_width :: int

text \<open>
  What the outside world does during one call of \<^verbatim>\<open>generate\<close>: whether the debug copy of
  the input image can be saved, the seed drawn by \<^verbatim>\<open>torch.randint\<close> (or the exception of
  creating the generator), the images the pipe returns for its arguments (or its
  exception), and whether the debug copy of the output can be saved.
\<close>

record 'gen gen_env =
  input_save_ok :: bool
  seed_outcome :: "py_error + nat"
  pipe_call :: "pipe_args \<Rightarrow> py_error + 'gen list"
  output_save_ok :: bool

text \<open>The body of the \<^verbatim>\<open>try\<close> block of \<^verbatim>\<open>generate\<close> (lines 125 to 162).\<close>

definition generation_step ::
  "config \<Rightarrow> 'gen gen_env \<Rightarrow> diffusion_pipeline \<Rightarrow> string \<Rightarrow> int \<Rightarrow> int
     \<Rightarrow> py_error + (('arr, 'gen) image \<times> nat)" where
  "generation_step cfg env p prompt width height =
     (case seed_outcome env of
        Inl e \<Rightarrow> Inl e
      | Inr seed \<Rightarrow>
          (case prompts_negative_prompt cfg of
             None \<Rightarrow> Inl KeyError
           | Some negative_prompt \<Rightarrow>
               (let steps = (if device p = Cpu then min (inference_steps p) 20
                             else inference_steps p)
                in case pipe_call env
                          \<lparr> arg_prompt = prompt, arg_negative_prompt = negative_prompt,
                            arg_num_inference_steps = steps,
                            arg_guidance_scale = guidance_scale p, arg_seed = seed,
                            arg_height = height, arg_width = width \<rparr> of
                     Inl e \<Rightarrow> Inl e
                   | Inr images \<Rightarrow>
                       (case images of
                          [] \<Rightarrow> Inl IndexError
                        | g # _ \<Rightarrow>
                            if dp_debug p \<and> \<not> output_save_ok env then Inl IOError
                            else Inr (Pipe_image g, seed)))))"

text \<open>\<^verbatim>\<open>generate(image, prompt)\<close>; the argument \<^verbatim>\<open>image\<close> is \<^verbatim>\<open>None\<close> or a PIL image.\<close>

definition generate ::
  "config \<Rightarrow> 'gen gen_env \<Rightarrow> diffusion_pipeline \<Rightarrow> ('arr, 'gen) image option \<Rightarrow> string
     \<Rightarrow> py_error + (('arr, 'gen) image \<times> nat)" where
  "generate cfg env p input_image prompt =
     (if \<not> pipe_loaded p then Inl RuntimeError
      else
        (let width = render_cfg_width cfg; height = render_cfg_height cfg
         in if dp_debug p \<and> input_image \<noteq> None \<and> \<not> input_save_ok env then Inl IOError
            else
              (case generation_step cfg env p prompt width height of
                 Inr r \<Rightarrow> Inr r
               | Inl e \<Rightarrow>
                   (case image_new width height (30, 30, 30) of
                      Inl e' \<Rightarrow> Inl e'
                    | Inr fallback_image \<Rightarrow> Inr (fallback_image, 0)))))"

section \<open>BackgroundUpdater (src/stockvision.py)\<close>

text \<open>\<^verbatim>\<open>StockInfoOverlay\<close>: only the attribute that \<^verbatim>\<open>update_stock_info\<close> assigns.\<close>

record 'snap stock_info_overlay =
  stock_data :: "'snap option"

definition update_stock_info :: "'snap \<Rightarrow> 'snap stock_info_overlay \<Rightarrow> 'snap stock_info_overlay" where
  "update_stock_info sd ov = ov\<lparr>stock_data := Some sd\<rparr>"

text \<open>
  The updater and the objects it refers to. \<^verbatim>\<open>surface_manager\<close> and \<^verbatim>\<open>stock_overlay\<close> are
  \<^verbatim>\<open>None\<close> until the setters are called; the render loop works on the same two objects.
  \<^verbatim>\<open>update_thread\<close> records whether the attribute holds a thread.
\<close>

record ('snap, 'arr, 'gen) background_updater =
  bu_debug :: bool
  surface_manager :: "('arr, 'gen) image surface_manager option"
  stock_overlay :: "'snap stock_info_overlay option"
  last_attempt :: real
  is_updating :: bool
  update_thread :: bool
  stock_fetcher :: "'snap stock_fetcher"
  diffusion_enabled :: bool
  diffusion_pipeline :: diffusion_pipeline

definition UPDATE_INTERVAL :: "config \<Rightarrow> real" where
  "UPDATE_INTERVAL cfg = stock_update_interval_minutes cfg * 60"

text \<open>What the collaborators do during one run of \<^verbatim>\<open>_do_update\<close>.\<close>

record ('snap, 'arr, 'gen) cycle_env =
  yf :: "'snap yf_outcome"
  render_chart_array :: "'snap \<Rightarrow> py_error + 'arr ndarray"
  generate_prompt :: "'snap \<Rightarrow> py_error + string"
  gen :: "'gen gen_env"

text \<open>\<^verbatim>\<open>if self.surface_manager: self.surface_manager.queue_background_update(img)\<close>\<close>

definition publish ::
  "('arr, 'gen) image \<Rightarrow> ('snap, 'arr, 'gen) background_updater
     \<Rightarrow> ('snap, 'arr, 'gen) background_updater" where
  "publish img u =
     (case surface_manager u of
        Some sm \<Rightarrow> u\<lparr>surface_manager := Some (queue_background_update img sm)\<rparr>
      | None \<Rightarrow> u)"

text \<open>The inner \<^verbatim>\<open>try\<close> block of \<^verbatim>\<open>_do_update\<close> up to the image (lines 97 to 107), with
  \<^verbatim>\<open>self.diffusion_pipeline\<close> as \<open>p\<close>.\<close>

definition ai_generation ::
  "config \<Rightarrow> ('snap, 'arr, 'gen) cycle_env \<Rightarrow> diffusion_pipeline \<Rightarrow> 'snap
     \<Rightarrow> 'arr ndarray \<Rightarrow> py_error + ('arr, 'gen) image" where
  "ai_generation cfg env p sd chart_array =
     (let chart_image = Fromarray chart_array
      in case generate_prompt env sd of
           Inl e \<Rightarrow> Inl e
         | Inr prompt \<Rightarrow>
             (case generate cfg (gen env) p (Some chart_image) prompt of
                Inl e \<Rightarrow> Inl e
              | Inr (img, seed) \<Rightarrow> Inr img))"

text \<open>
  \<^verbatim>\<open>_do_update\<close>, the body of the worker thread, in two parts: \<open>cycle_body\<close> is the
  \<^verbatim>\<open>try\<close> block with its handler (every exception ends there and is printed), and the
  \<^verbatim>\<open>finally\<close> block clears the flag on every path.
\<close>

definition cycle_body ::
  "config \<Rightarrow> ('snap, 'arr, 'gen) cycle_env \<Rightarrow> ('snap, 'arr, 'gen) background_updater
     \<Rightarrow> ('snap, 'arr, 'gen) background_updater" where
  "cycle_body cfg env u =
     (let (sd_opt, fetcher') = fetch_data (yf env) (stock_fetcher u);
          u1 = u\<lparr>stock_fetcher := fetcher'\<rparr>
      in case sd_opt of
           None \<Rightarrow> u1
         | Some sd \<Rightarrow>
             (case render_chart_array env sd of
                Inl e \<Rightarrow> u1
              | Inr chart_array \<Rightarrow>
                  (let u2 = (case stock_overlay u1 of
                               Some ov \<Rightarrow> u1\<lparr>stock_overlay := Some (update_stock_info sd ov)\<rparr>
                             | None \<Rightarrow> u1)
                   in if diffusion_enabled u2 then
                        (case ai_generation cfg env (diffusion_pipeline u2) sd chart_array of
                           Inr img \<Rightarrow> publish img u2
                         | Inl e \<Rightarrow> publish (Fromarray chart_array) u2)
                      else publish (Fromarray chart_array) u2)))"

definition finish ::
  "('snap, 'arr, 'gen) background_updater \<Rightarrow> ('snap, 'arr, 'gen) background_updater" where
  "finish u = u\<lparr>is_updating := False, update_thread := False\<rparr>"

definition do_update ::
  "config \<Rightarrow> ('snap, 'arr, 'gen) cycle_env \<Rightarrow> ('snap, 'arr, 'gen) background_updater
     \<Rightarrow> ('snap, 'arr, 'gen) background_updater" where
  "do_update cfg env u = finish (cycle_body cfg env u)"

text \<open>
  \<^verbatim>\<open>BackgroundUpdater.update_background\<close> with \<^verbatim>\<open>time.time()\<close> as \<open>current_time\<close>, taken
  as one step (the lock is held throughout); the result says whether a worker thread was
  started. The name carries the class, \<open>update_background\<close> being the method of the
  surface manager.
\<close>

definition update_background_updater ::
  "config \<Rightarrow> real \<Rightarrow> ('snap, 'arr, 'gen) background_updater
     \<Rightarrow> bool \<times> ('snap, 'arr, 'gen) background_updater" where
  "update_background_updater cfg current_time u =
     (if is_updating u \<or> current_time - last_attempt u < UPDATE_INTERVAL cfg then (False, u)
      else (True, u\<lparr>is_updating := True, last_attempt := current_time, update_thread := True\<rparr>))"

text \<open>\<^verbatim>\<open>should_update\<close> with \<^verbatim>\<open>time.time()\<close> as \<open>now\<close>.\<close>

definition should_update :: "config \<Rightarrow> real \<Rightarrow> ('snap, 'arr, 'gen) background_updater \<Rightarrow> bool" where
  "should_update cfg now u = (UPDATE_INTERVAL cfg \<le> now - last_attempt u)"

text \<open>The handler of the key \<^verbatim>\<open>r\<close> in the render loop (lines 217 to 219).\<close>

definition force_refresh ::
  "('snap, 'arr, 'gen) background_updater \<Rightarrow> ('snap, 'arr, 'gen) background_updater" where
  "force_refresh u = u\<lparr>last_attempt := 0\<rparr>"

text \<open>
  The scheduling part of one pass of the render loop (lines 207 to 223): the key handler
  when \<^verbatim>\<open>r\<close> was pressed, then \<^verbatim>\<open>should_update\<close> reading the clock at \<open>t1\<close> and, when it
  says so, \<^verbatim>\<open>update_background\<close> reading it again at \<open>t2\<close>.
\<close>

definition schedule_tick ::
  "config \<Rightarrow> bool \<Rightarrow> real \<Rightarrow> real \<Rightarrow> ('snap, 'arr, 'gen) background_updater
     \<Rightarrow> bool \<times> ('snap, 'arr, 'gen) background_updater" where
  "schedule_tick cfg key_r t1 t2 u =
     (let u1 = (if key_r then force_refresh u else u)
      in if should_update cfg t1 u1 then update_background_updater cfg t2 u1 else (False, u1))"

section \<open>The updater and its threads (src/stockvision.py, lines 127 to 150)\<close>

text \<open>
  Where a thread is. A thread that called \<^verbatim>\<open>update_background\<close> has read the clock and
  waits for the lock (line 137), holds the lock before the guard (line 139), before
  \<^verbatim>\<open>self.is_updating = True\<close> (line 142), before \<^verbatim>\<open>self.last_attempt = current_time\<close>
  (line 143), before creating and starting the worker (lines 146 to 150), or has left the
  method (returned, with whether it started a worker, or raised by \<^verbatim>\<open>Thread.start\<close>). A
  worker runs the \<^verbatim>\<open>try\<close> block of \<^verbatim>\<open>_do_update\<close>, waits for the lock in the \<^verbatim>\<open>finally\<close>
  block (line 130), holds it before clearing the flag (line 131), or is done.
\<close>

datatype pc =
  Call_waiting real
  | Call_locked real
  | Call_flag real
  | Call_time real
  | Call_spawn
  | Call_returned bool
  | Call_raised
  | Work_running
  | Work_waiting
  | Work_locked
  | Work_done

text \<open>The updater object, its lock, and the threads that are or were at work on it.\<close>

record ('snap, 'arr, 'gen) system =
  updater :: "('snap, 'arr, 'gen) background_updater"
  lock_held :: bool
  threads :: "pc list"

text \<open>After \<^verbatim>\<open>BackgroundUpdater.__init__\<close>: the lock is free and no thread is there.\<close>

definition initial_system ::
  "('snap, 'arr, 'gen) background_updater \<Rightarrow> ('snap, 'arr, 'gen) system" where
  "initial_system u =
     \<lparr> updater = u\<lparr>last_attempt := 0, is_updating := False, update_thread := False\<rparr>,
       lock_held = False, threads = [] \<rparr>"

text \<open>
  What can happen next: a thread enters \<^verbatim>\<open>update_background\<close> at clock reading \<open>t\<close>; the
  key handler assigns \<^verbatim>\<open>last_attempt = 0\<close> (without the lock, as in the source); thread
  \<open>i\<close> executes its next statement; worker \<open>i\<close> runs its \<^verbatim>\<open>try\<close> block against the
  collaborators (the block reads and writes neither the flag, nor the timestamp, nor the
  lock); \<^verbatim>\<open>Thread.start\<close> raises in thread \<open>i\<close>. A schedule is a list of events, so
  calls overlap in every way the lock allows.
\<close>

datatype ('snap, 'arr, 'gen) event =
  Call real
  | Press_r
  | Advance nat
  | Run_cycle nat "('snap, 'arr, 'gen) cycle_env"
  | Start_fails nat

definition set_pc :: "nat \<Rightarrow> pc \<Rightarrow> ('snap, 'arr, 'gen) system \<Rightarrow> ('snap, 'arr, 'gen) system" where
  "set_pc i p s = s\<lparr>threads := (threads s)[i := p]\<rparr>"

text \<open>
  The next statement of thread \<open>i\<close>. A thread that waits for a held lock stays where it
  is; leaving the \<^verbatim>\<open>with\<close> block releases the lock.
\<close>

definition advance ::
  "config \<Rightarrow> nat \<Rightarrow> ('snap, 'arr, 'gen) system \<Rightarrow> ('snap, 'arr, 'gen) system" where
  "advance cfg i s =
     (if length (threads s) \<le> i then s
      else
        (case threads s ! i of
           Call_waiting current_time \<Rightarrow>
             if lock_held s then s
             else set_pc i (Call_locked current_time) (s\<lparr>lock_held := True\<rparr>)
         | Call_locked current_time \<Rightarrow>
             if is_updating (updater s)
                \<or> current_time - last_attempt (updater s) < UPDATE_INTERVAL cfg
             then set_pc i (Call_returned False) (s\<lparr>lock_held := False\<rparr>)
             else set_pc i (Call_flag current_time) s
         | Call_flag current_time \<Rightarrow>
             set_pc i (Call_time current_time)
               (s\<lparr>updater := (updater s)\<lparr>is_updating := True\<rparr>\<rparr>)
         | Call_time current_time \<Rightarrow>
             set_pc i Call_spawn (s\<lparr>updater := (updater s)\<lparr>last_attempt := current_time\<rparr>\<rparr>)
         | Call_spawn \<Rightarrow>
             (let s' = set_pc i (Call_returned True)
                         (s\<lparr>updater := (updater s)\<lparr>update_thread := True\<rparr>,
                            lock_held := False\<rparr>)
              in s'\<lparr>threads := threads s' @ [Work_running]\<rparr>)
         | Work_waiting \<Rightarrow>
             if lock_held s then s else set_pc i Work_locked (s\<lparr>lock_held := True\<rparr>)
         | Work_locked \<Rightarrow>
             set_pc i Work_done (s\<lparr>updater := finish (updater s), lock_held := False\<rparr>)
         | _ \<Rightarrow> s))"

definition exec ::
  "config \<Rightarrow> ('snap, 'arr, 'gen) event \<Rightarrow> ('snap, 'arr, 'gen) system
     \<Rightarrow> ('snap, 'arr, 'gen) system" where
  "exec cfg e s =
     (case e of
        Call current_time \<Rightarrow> s\<lparr>threads := threads s @ [Call_waiting current_time]\<rparr>
      | Press_r \<Rightarrow> s\<lparr>updater := force_refresh (updater s)\<rparr>
      | Advance i \<Rightarrow> advance cfg i s
      | Run_cycle i env \<Rightarrow>
          if i < length (threads s) \<and> threads s ! i = Work_running
          then set_pc i Work_waiting (s\<lparr>updater := cycle_body cfg env (updater s)\<rparr>)
          else s
      | Start_fails i \<Rightarrow>
          if i < length (threads s) \<and> threads s ! i = Call_spawn
          then set_pc i Call_raised
                 (s\<lparr>updater := (updater s)\<lparr>update_thread := True\<rparr>, lock_held := False\<rparr>)
          else s)"

fun run ::
  "config \<Rightarrow> ('snap, 'arr, 'gen) event list \<Rightarrow> ('snap, 'arr, 'gen) system
     \<Rightarrow> ('snap, 'arr, 'gen) system" where
  "run cfg [] s = s"
| "run cfg (e # es) s = run cfg es (exec cfg e s)"

text \<open>
  A cycle is in flight from the assignment \<^verbatim>\<open>self.is_updating = True\<close> of the call that
  starts it until its worker has cleared the flag in the \<^verbatim>\<open>finally\<close> block.
\<close>

fun in_flight :: "pc \<Rightarrow> bool" where
  "in_flight (Call_time _) = True"
| "in_flight Call_spawn = True"
| "in_flight Work_running = True"
| "in_flight Work_waiting = True"
| "in_flight Work_locked = True"
| "in_flight _ = False"

fun holds_lock :: "pc \<Rightarrow> bool" where
  "holds_lock (Call_locked _) = True"
| "holds_lock (Call_flag _) = True"
| "holds_lock (Call_time _) = True"
| "holds_lock Call_spawn = True"
| "holds_lock Work_locked = True"
| "holds_lock _ = False"

fun at_flag :: "pc \<Rightarrow> bool" where
  "at_flag (Call_flag _) = True"
| "at_flag _ = False"

definition count_pc :: "(pc \<Rightarrow> bool) \<Rightarrow> pc list \<Rightarrow> nat" where
  "count_pc P ts = length (filter P ts)"

definition cycles_in_flight :: "('snap, 'arr, 'gen) system \<Rightarrow> nat" where
  "cycles_in_flight s = count_pc in_flight (threads s)"

text \<open>The invariant of the scheduler: the lock is held by exactly the one thread inside a
  \<^verbatim>\<open>with self.lock\<close> block, at most one cycle is in flight and none when the flag is clear,
  and no call has passed the guard while the flag is set.\<close>

definition sched_inv :: "('snap, 'arr, 'gen) system \<Rightarrow> bool" where
  "sched_inv s \<longleftrightarrow>
     count_pc holds_lock (threads s) = (if lock_held s then 1 else 0)
     \<and> cycles_in_flight s \<le> 1
     \<and> (\<not> is_updating (updater s) \<longrightarrow> cycles_in_flight s = 0)
     \<and> (is_updating (updater s) \<longrightarrow> count_pc at_flag (threads s) = 0)"

section \<open>Example inputs\<close>

definition demo_config :: config where
  "demo_config =
     \<lparr> display_fps = 30, animation_transition_duration = 2, render_cfg_width = 512,
       render_cfg_height = 512, stock_update_interval_minutes = 5,
       prompts_negative_prompt = Some ''blurry'' \<rparr>"

definition demo_pipeline :: diffusion_pipeline where
  "demo_pipeline =
     \<lparr> dp_debug = False, device = Cpu, pipe_loaded = True, inference_steps = 10,
       guidance_scale = 7.5 \<rparr>"

text \<open>Float operations that do not round, for examples in which no float arithmetic is
  done.\<close>

definition unrounded :: float_ops where
  "unrounded = \<lparr> fl_mul = (\<lambda>x y. x * y), fl_div = (\<lambda>x y. x / y), fl_add = (\<lambda>x y. x + y) \<rparr>"

text \<open>The chart array of a snapshot with history: four channels.\<close>

definition rgba_chart :: "nat ndarray" where
  "rgba_chart = \<lparr> channels = 4, pixels = 7 \<rparr>"

text \<open>A surface manager that shows pipe image 1, settled, with an empty slot.\<close>

definition showing_manager :: "(nat, nat) image surface_manager" where
  "showing_manager =
     \<lparr> display_width = 800, display_height = 600, render_width = 512, render_height = 512,
       sm_debug = False, background_surface = Some (Make_surface (Pipe_image 1)),
       previous_background = None, transition_progress = 1, pending_background = None \<rparr>"

text \<open>An updater in the middle of a cycle that started at time 1000, nothing cached,
  synthesis enabled, surface manager and overlay attached.\<close>

definition busy_updater :: "(nat, nat, nat) background_updater" where
  "busy_updater =
     \<lparr> bu_debug = False,
       surface_manager = Some (surface_manager_init 800 600 512 512 False),
       stock_overlay = Some \<lparr> stock_data = None \<rparr>,
       last_attempt = 1000, is_updating = True, update_thread = True,
       stock_fetcher = \<lparr> sf_debug = False, last_data = None \<rparr>,
       diffusion_enabled = True, diffusion_pipeline = demo_pipeline \<rparr>"

text \<open>The same updater with snapshot 100 cached by an earlier cycle.\<close>

definition cached_updater :: "(nat, nat, nat) background_updater" where
  "cached_updater = busy_updater\<lparr>stock_fetcher := \<lparr> sf_debug = False, last_data = Some 100 \<rparr>\<rparr>"

text \<open>A cycle in which the fetch returns snapshot 100, the chart is rendered, the prompt
  is derived and the diffusion pipe raises.\<close>

definition synthesis_fails_env :: "(nat, nat, nat) cycle_env" where
  "synthesis_fails_env =
     \<lparr> yf = Fetched 100,
       render_chart_array = (\<lambda>sd. Inr rgba_chart),
       generate_prompt = (\<lambda>sd. Inr ''a vibrant Ghibli town''),
       gen = \<lparr> input_save_ok = True, seed_outcome = Inr 42,
               pipe_call = (\<lambda>args. Inl RuntimeError), output_save_ok = True \<rparr> \<rparr>"

text \<open>The same cycle with a prompt derivation that raises.\<close>

definition prompt_fails_env :: "(nat, nat, nat) cycle_env" where
  "prompt_fails_env = synthesis_fails_env\<lparr>generate_prompt := (\<lambda>sd. Inl KeyError)\<rparr>"

text \<open>A cycle in which the fetch raises and the pipe returns image 9.\<close>

definition fetch_fails_env :: "(nat, nat, nat) cycle_env" where
  "fetch_fails_env =
     \<lparr> yf = Fetch_raises,
       render_chart_array = (\<lambda>sd. Inr rgba_chart),
       generate_prompt = (\<lambda>sd. Inr ''a vibrant Ghibli town''),
       gen = \<lparr> input_save_ok = True, seed_outcome = Inr 42,
               pipe_call = (\<lambda>args. Inr [9]), output_save_ok = True \<rparr> \<rparr>"

text \<open>The settled-display invariant of the spec's data model: no previous background means
  the transition is complete.\<close>

definition settled_inv :: "'img surface_manager \<Rightarrow> bool" where
  "settled_inv s = (previous_background s = None \<longrightarrow> transition_progress s = 1)"

section \<open>Theorems\<close>

subsection \<open>The display state\<close>

text \<open>
  For an image that \<^verbatim>\<open>make_surface\<close> takes (three channels), queueing \<open>a\<close>, then \<open>b\<close>, then
  applying makes \<open>b\<close> the background, the former background the previous one, and
  empties the slot unless the debug image cannot be saved.
\<close>

lemma last_write_wins_three_channels:
  fixes s :: "('arr, 'gen) image surface_manager"
  assumes "array_channels b = 3"
  shows "(let r = apply_pending_updates ok
                    (queue_background_update b (queue_background_update a s))
          in background_surface (snd r) = Some (Make_surface b)
           \<and> previous_background (snd r) =
               (case background_surface s of Some old \<Rightarrow> Some old | None \<Rightarrow> previous_background s)
           \<and> pending_background (snd r) = (if fst r = Inr () then None else Some b)
           \<and> (fst r = Inr () \<longleftrightarrow> (sm_debug s \<longrightarrow> ok)))"
  using assms
  by (auto simp: apply_pending_updates_def queue_background_update_def update_background_def
      make_surface_def Let_def split: option.splits)

lemma apply_pending_updates_empty:
  "apply_pending_updates ok (s\<lparr>pending_background := None\<rparr>)
     = (Inr (), s\<lparr>pending_background := None\<rparr>)"
  by (simp add: apply_pending_updates_def)

text \<open>
  C5 (mailbox last-write-wins) at the chart image that the refresh cycle queues when
  synthesis is off or has raised: queued last, it is handed to \<^verbatim>\<open>update_background\<close>,
  which raises \<^verbatim>\<open>ValueError\<close> in \<^verbatim>\<open>make_surface\<close>. The background is still pipe image 1,
  which has also become the previous background with progress 0, and the slot still
  holds the chart image.
\<close>

theorem mailbox_rgba_chart_not_applied:
  "apply_pending_updates True
     (queue_background_update (Fromarray rgba_chart)
        (queue_background_update (Pipe_image 2) showing_manager))
   = (Inl ValueError,
      showing_manager\<lparr>previous_background := Some (Make_surface (Pipe_image 1)),
                        transition_progress := 0,
                        pending_background := Some (Fromarray rgba_chart)\<rparr>)"
  by (simp add: apply_pending_updates_def queue_background_update_def update_background_def
      make_surface_def showing_manager_def rgba_chart_def)

lemma settled_inv_init: "settled_inv (surface_manager_init dw dh rw rh dbg)"
  by (simp add: settled_inv_def surface_manager_init_def)

lemma settled_inv_queue: "settled_inv s \<Longrightarrow> settled_inv (queue_background_update img s)"
  by (simp add: settled_inv_def queue_background_update_def)

lemma settled_inv_update: "settled_inv s \<Longrightarrow> settled_inv (snd (update_background ok img s))"
  by (auto simp: settled_inv_def update_background_def make_surface_def Let_def
      split: option.splits)

lemma settled_inv_apply: "settled_inv s \<Longrightarrow> settled_inv (snd (apply_pending_updates ok s))"
  by (auto simp: settled_inv_def apply_pending_updates_def update_background_def
      make_surface_def Let_def split: option.splits)

lemma settled_inv_frame: "settled_inv s \<Longrightarrow> settled_inv (snd (get_display_background fp cfg s))"
  by (auto simp: settled_inv_def get_display_background_def Let_def split: option.splits)

text \<open>
  C9 (settled-display invariant): every state reachable from the constructor by the
  methods of the class satisfies "no previous background implies progress 1", and each
  operation (constructor, queueing, adopting an artifact directly or from the slot, also
  the first one when there is no current background, and the frame computation) keeps it,
  on the paths that raise as well and however the float operations round.
\<close>

theorem settled_display_invariant:
  fixes s :: "('arr, 'gen) image surface_manager"
  shows "(reachable_sm fp cfg s \<longrightarrow> settled_inv s)
       \<and> settled_inv (surface_manager_init dw dh rw rh dbg :: ('arr, 'gen) image surface_manager)
       \<and> (settled_inv s \<longrightarrow> settled_inv (queue_background_update img s)
                        \<and> settled_inv (snd (update_background ok img s))
                        \<and> settled_inv (snd (apply_pending_updates ok s))
                        \<and> settled_inv (snd (get_display_background fp cfg s)))"
proof -
  have "settled_inv s" if "reachable_sm fp cfg s"
    using that
    by (induction rule: reachable_sm.induct)
       (simp_all add: settled_inv_init settled_inv_queue settled_inv_update settled_inv_apply
          settled_inv_frame)
  then show ?thesis
    by (simp add: settled_inv_init settled_inv_queue settled_inv_update settled_inv_apply
        settled_inv_frame)
qed

theorem settled_display_invariant_witness:
  "(let s = snd (update_background True (Pipe_image (7::nat))
                   (surface_manager_init 800 600 512 512 False
                      :: (nat, nat) image surface_manager))
    in reachable_sm unrounded demo_config s \<and> settled_inv s \<and> previous_background s = None
       \<and> background_surface s = Some (Make_surface (Pipe_image 7)) \<and> transition_progress s = 1
       \<and> settled_inv (snd (get_display_background unrounded demo_config s)))"
proof -
  let ?s = "snd (update_background True (Pipe_image (7::nat))
                   (surface_manager_init 800 600 512 512 False
                      :: (nat, nat) image surface_manager))"
  have r: "reachable_sm unrounded demo_config ?s"
    by (rule reachable_sm.update) (rule reachable_sm.init)
  have v: "previous_background ?s = None \<and> background_surface ?s = Some (Make_surface (Pipe_image 7))
           \<and> transition_progress ?s = 1"
    by (simp add: update_background_def make_surface_def surface_manager_init_def)
  from r v settled_display_invariant [of unrounded demo_config ?s 800 600 512 512 False
      "Pipe_image 7" True]
  show ?thesis by (simp add: Let_def)
qed

text \<open>
  C7 (settled-frame identity): when there is no previous background or the progress has
  reached 1, \<^verbatim>\<open>get_display_background\<close> returns the current background scaled to the
  display size (\<^verbatim>\<open>None\<close> when there is no background yet), not a composite, and leaves
  every attribute as it was.
\<close>

theorem settled_frame_identity:
  assumes "previous_background s = None \<or> 1 \<le> transition_progress s"
  shows "get_display_background fp cfg s =
           (Inr (map_option (\<lambda>cur. Smoothscale cur (display_width s) (display_height s))
                   (background_surface s)), s)"
  using assms by (auto simp: get_display_background_def split: option.splits)

theorem settled_frame_identity_witness:
  "(let s = \<lparr> display_width = 800, display_height = 600, render_width = 512,
              render_height = 512, sm_debug = False,
              background_surface = Some (Make_surface (2::nat)),
              previous_background = Some (Make_surface 1), transition_progress = 1,
              pending_background = None \<rparr>
    in (previous_background s = None \<or> 1 \<le> transition_progress s)
       \<and> get_display_background unrounded demo_config s
           = (Inr (Some (Smoothscale (Make_surface 2) 800 600)), s))"
  using settled_frame_identity [of
      "\<lparr> display_width = 800, display_height = 600, render_width = 512,
              render_height = 512, sm_debug = False,
              background_surface = Some (Make_surface (2::nat)),
              previous_background = Some (Make_surface 1), transition_progress = 1,
              pending_background = None \<rparr>"
      unrounded demo_config]
  by (simp add: Let_def)

subsection \<open>The synthesizer\<close>

lemma generate_returns:
  assumes "pipe_loaded p"
      and "dp_debug p \<and> input_image \<noteq> None \<longrightarrow> input_save_ok env"
      and "0 \<le> render_cfg_width cfg" and "0 \<le> render_cfg_height cfg"
  shows "generate cfg env p input_image prompt =
           Inr (case generation_step cfg env p prompt (render_cfg_width cfg) (render_cfg_height cfg) of
                  Inr r \<Rightarrow> r
                | Inl e \<Rightarrow> (New_rgb (render_cfg_width cfg) (render_cfg_height cfg) (30, 30, 30), 0))"
  using assms by (auto simp: generate_def image_new_def Let_def split: sum.splits)

text \<open>
  C10 (synthesizer totality): on a pipeline whose pipe is loaded, with render dimensions
  that \<^verbatim>\<open>Image.new\<close> accepts and the debug copy of the input (written before the \<^verbatim>\<open>try\<close>
  block, in debug mode only) saved, \<^verbatim>\<open>generate\<close> returns a pair for every input image and
  prompt; whenever anything inside the generation step raises, the pair is the solid
  \<open>(30, 30, 30)\<close> image of the configured size with seed 0.
\<close>

theorem synthesizer_totality:
  fixes env :: "'gen gen_env" and input_image :: "('arr, 'gen) image option"
  assumes "pipe_loaded p"
      and "dp_debug p \<and> input_image \<noteq> None \<longrightarrow> input_save_ok env"
      and "0 \<le> render_cfg_width cfg" and "0 \<le> render_cfg_height cfg"
  shows "\<exists>img seed. generate cfg env p input_image prompt = Inr (img, seed)
           \<and> ((\<exists>e. (generation_step cfg env p prompt (render_cfg_width cfg)
                       (render_cfg_height cfg) :: py_error + (('arr, 'gen) image \<times> nat)) = Inl e)
                \<longrightarrow> img = New_rgb (render_cfg_width cfg) (render_cfg_height cfg) (30, 30, 30)
                    \<and> seed = 0)"
  using generate_returns [OF assms, of prompt]
  by (cases "generation_step cfg env p prompt (render_cfg_width cfg) (render_cfg_height cfg)
              :: py_error + (('arr, 'gen) image \<times> nat)") auto

theorem synthesizer_totality_witness:
  "pipe_loaded demo_pipeline
   \<and> input_save_ok (gen synthesis_fails_env)
   \<and> 0 \<le> render_cfg_width demo_config \<and> 0 \<le> render_cfg_height demo_config
   \<and> (generation_step demo_config (gen synthesis_fails_env) demo_pipeline ''a town'' 512 512
         :: py_error + ((nat, nat) image \<times> nat)) = Inl RuntimeError
   \<and> generate demo_config (gen synthesis_fails_env) demo_pipeline
         (Some (Fromarray rgba_chart)) ''a town''
       = Inr (New_rgb 512 512 (30, 30, 30), 0)"
  using synthesizer_totality [of demo_pipeline "Some (Fromarray rgba_chart)"
      "gen synthesis_fails_env" demo_config "''a town''"]
  by (auto simp: demo_pipeline_def demo_config_def synthesis_fails_env_def generation_step_def)

subsection \<open>The refresh cycle\<close>

text \<open>The image a cycle queues once the chart is rendered.\<close>

lemma do_update_fetched:
  assumes f: "fst (fetch_data (yf env) (stock_fetcher u)) = Some sd"
      and r: "render_chart_array env sd = Inr arr"
      and m: "surface_manager u = Some sm"
  shows "do_update cfg env u =
           u\<lparr>stock_fetcher := snd (fetch_data (yf env) (stock_fetcher u)),
              stock_overlay := map_option (update_stock_info sd) (stock_overlay u),
              surface_manager := Some (sm\<lparr>pending_background := Some
                 (if diffusion_enabled u then
                    (case ai_generation cfg env (diffusion_pipeline u) sd arr of
                       Inl e \<Rightarrow> Fromarray arr | Inr g \<Rightarrow> g)
                  else Fromarray arr)\<rparr>),
              is_updating := False, update_thread := False\<rparr>"
proof -
  obtain f' where "fetch_data (yf env) (stock_fetcher u) = (Some sd, f')"
    using f by (cases "fetch_data (yf env) (stock_fetcher u)") auto
  then show ?thesis
    using r m
    by (auto simp: do_update_def cycle_body_def finish_def publish_def
        queue_background_update_def Let_def split: option.splits sum.splits)
qed

lemma ai_generation_inner_failure:
  assumes "generate_prompt env sd = Inr pr"
      and "(generation_step cfg (gen env) p pr (render_cfg_width cfg) (render_cfg_height cfg)
              :: py_error + (('arr, 'gen) image \<times> nat)) = Inl e"
      and "pipe_loaded p" and "dp_debug p \<longrightarrow> input_save_ok (gen env)"
      and "0 \<le> render_cfg_width cfg" and "0 \<le> render_cfg_height cfg"
  shows "(ai_generation cfg env p sd arr :: py_error + ('arr, 'gen) image)
            = Inr (New_rgb (render_cfg_width cfg) (render_cfg_height cfg) (30, 30, 30))"
  using assms
  by (auto simp: ai_generation_def generate_def image_new_def Let_def split: sum.splits)

lemma adopt_gray:
  "background_surface (snd (apply_pending_updates ok
       (sm\<lparr>pending_background := Some (New_rgb w h c)\<rparr>))) = Some (Make_surface (New_rgb w h c))"
  by (simp add: apply_pending_updates_def update_background_def make_surface_def Let_def
      split: option.splits)

text \<open>
  C2 as the code has it: when the snapshot is fetched and the chart rendered, a surface
  manager is attached and synthesis is enabled, the cycle always puts an image into the
  slot of the surface manager, changes nothing else of it, and clears \<^verbatim>\<open>is_updating\<close>.
  When prompt derivation or \<^verbatim>\<open>generate\<close> raises, the image is the chart itself (the
  handler's fallback). When the generation step inside \<^verbatim>\<open>generate\<close> raises (pipe loaded,
  render size accepted, debug copy of the input saved), it is the solid dark-gray image
  that \<^verbatim>\<open>generate\<close> returns instead, and the next \<^verbatim>\<open>apply_pending_updates\<close> makes that
  image the background.
\<close>

theorem synthesis_failure_publishes_fallback:
  fixes env :: "('snap, 'arr, 'gen) cycle_env"
  assumes "fst (fetch_data (yf env) (stock_fetcher u)) = Some sd"
      and "render_chart_array env sd = Inr arr"
      and "surface_manager u = Some sm" and "diffusion_enabled u"
  shows "\<exists>img. surface_manager (do_update cfg env u) = Some (sm\<lparr>pending_background := Some img\<rparr>)
          \<and> \<not> is_updating (do_update cfg env u)
          \<and> ((\<exists>e. ai_generation cfg env (diffusion_pipeline u) sd arr = Inl e)
               \<longrightarrow> img = Fromarray arr)
          \<and> ((\<exists>pr e. generate_prompt env sd = Inr pr
                    \<and> (generation_step cfg (gen env) (diffusion_pipeline u) pr
                         (render_cfg_width cfg) (render_cfg_height cfg)
                          :: py_error + (('arr, 'gen) image \<times> nat)) = Inl e)
                \<and> pipe_loaded (diffusion_pipeline u)
                \<and> (dp_debug (diffusion_pipeline u) \<longrightarrow> input_save_ok (gen env))
                \<and> 0 \<le> render_cfg_width cfg \<and> 0 \<le> render_cfg_height cfg
               \<longrightarrow> img = New_rgb (render_cfg_width cfg) (render_cfg_height cfg) (30, 30, 30)
                 \<and> background_surface
                      (snd (apply_pending_updates ok (sm\<lparr>pending_background := Some img\<rparr>)))
                     = Some (Make_surface
                              (New_rgb (render_cfg_width cfg) (render_cfg_height cfg)
                                 (30, 30, 30))))"
proof -
  let ?ai = "ai_generation cfg env (diffusion_pipeline u) sd arr :: py_error + ('arr, 'gen) image"
  let ?img = "case ?ai of Inl e \<Rightarrow> Fromarray arr | Inr g \<Rightarrow> g"
  let ?gray = "New_rgb (render_cfg_width cfg) (render_cfg_height cfg) (30, 30, 30)
                 :: ('arr, 'gen) image"
  have d: "do_update cfg env u =
           u\<lparr>stock_fetcher := snd (fetch_data (yf env) (stock_fetcher u)),
              stock_overlay := map_option (update_stock_info sd) (stock_overlay u),
              surface_manager := Some (sm\<lparr>pending_background := Some ?img\<rparr>),
              is_updating := False, update_thread := False\<rparr>"
    using do_update_fetched [OF assms(1-3), of cfg] assms(4) by simp
  have 1: "surface_manager (do_update cfg env u) = Some (sm\<lparr>pending_background := Some ?img\<rparr>)"
    by (simp add: d)
  have 2: "\<not> is_updating (do_update cfg env u)" by (simp add: d)
  have 3: "(\<exists>e. ?ai = Inl e) \<longrightarrow> ?img = Fromarray arr" by auto
  have 4: "?img = ?gray
           \<and> background_surface (snd (apply_pending_updates ok (sm\<lparr>pending_background := Some ?img\<rparr>)))
               = Some (Make_surface ?gray)"
    if "\<exists>pr e. generate_prompt env sd = Inr pr
                    \<and> (generation_step cfg (gen env) (diffusion_pipeline u) pr
                         (render_cfg_width cfg) (render_cfg_height cfg)
                          :: py_error + (('arr, 'gen) image \<times> nat)) = Inl e"
       "pipe_loaded (diffusion_pipeline u)"
       "dp_debug (diffusion_pipeline u) \<longrightarrow> input_save_ok (gen env)"
       "0 \<le> render_cfg_width cfg" "0 \<le> render_cfg_height cfg"
  proof -
    from that(1) obtain pr e where p: "generate_prompt env sd = Inr pr"
      and g: "(generation_step cfg (gen env) (diffusion_pipeline u) pr
                (render_cfg_width cfg) (render_cfg_height cfg)
                 :: py_error + (('arr, 'gen) image \<times> nat)) = Inl e"
      by blast
    have "?ai = Inr ?gray"
      by (rule ai_generation_inner_failure [OF p g that(2-5)])
    then have i: "?img = ?gray" by simp
    show ?thesis unfolding i using adopt_gray by simp
  qed
  show ?thesis
    apply (rule exI [of _ ?img])
    using 1 2 3 4 by blast
qed

lemma demo_cycle_result:
  "do_update demo_config synthesis_fails_env busy_updater =
     busy_updater\<lparr>stock_fetcher := \<lparr> sf_debug = False, last_data = Some 100 \<rparr>,
                   stock_overlay := Some \<lparr> stock_data = Some 100 \<rparr>,
                   surface_manager := Some (queue_background_update
                       (New_rgb 512 512 (30, 30, 30)) (surface_manager_init 800 600 512 512 False)),
                   is_updating := False, update_thread := False\<rparr>"
  by (simp add: do_update_def cycle_body_def finish_def busy_updater_def
      synthesis_fails_env_def demo_config_def
      demo_pipeline_def fetch_data_def update_stock_info_def ai_generation_def generate_def
      generation_step_def image_new_def publish_def Let_def)

text \<open>
  C2 (abort on synthesis failure) does not hold: in the example cycle the snapshot is
  fetched, the chart rendered and the diffusion pipe raises, yet the slot of the surface
  manager, empty before, holds an image after the cycle, and the next
  \<^verbatim>\<open>apply_pending_updates\<close> makes it the background.
\<close>

theorem synthesis_failure_counterexample:
  "fst (fetch_data (yf synthesis_fails_env) (stock_fetcher busy_updater)) = Some 100
   \<and> render_chart_array synthesis_fails_env 100 = Inr rgba_chart
   \<and> (generation_step demo_config (gen synthesis_fails_env) (diffusion_pipeline busy_updater)
         ''a vibrant Ghibli town'' 512 512 :: py_error + ((nat, nat) image \<times> nat))
       = Inl RuntimeError
   \<and> map_option pending_background (surface_manager busy_updater) = Some None
   \<and> map_option pending_background
         (surface_manager (do_update demo_config synthesis_fails_env busy_updater))
       = Some (Some (New_rgb 512 512 (30, 30, 30)))
   \<and> map_option (\<lambda>sm. background_surface (snd (apply_pending_updates True sm)))
         (surface_manager busy_updater) = Some None
   \<and> map_option (\<lambda>sm. background_surface (snd (apply_pending_updates True sm)))
         (surface_manager (do_update demo_config synthesis_fails_env busy_updater))
       = Some (Some (Make_surface (New_rgb 512 512 (30, 30, 30))))"
  unfolding demo_cycle_result
  by (simp add: busy_updater_def synthesis_fails_env_def demo_config_def demo_pipeline_def
      fetch_data_def generation_step_def surface_manager_init_def queue_background_update_def
      apply_pending_updates_def update_background_def make_surface_def)

theorem synthesis_failure_publishes_fallback_witness:
  "fst (fetch_data (yf synthesis_fails_env) (stock_fetcher busy_updater)) = Some 100
   \<and> render_chart_array synthesis_fails_env 100 = Inr rgba_chart
   \<and> surface_manager busy_updater = Some (surface_manager_init 800 600 512 512 False)
   \<and> diffusion_enabled busy_updater
   \<and> generate_prompt synthesis_fails_env 100 = Inr ''a vibrant Ghibli town''
   \<and> (generation_step demo_config (gen synthesis_fails_env) (diffusion_pipeline busy_updater)
         ''a vibrant Ghibli town'' (render_cfg_width demo_config) (render_cfg_height demo_config)
          :: py_error + ((nat, nat) image \<times> nat)) = Inl RuntimeError
   \<and> surface_manager (do_update demo_config synthesis_fails_env busy_updater)
       = Some ((surface_manager_init 800 600 512 512 False)
                 \<lparr>pending_background := Some (New_rgb 512 512 (30, 30, 30))\<rparr>)
   \<and> \<not> is_updating (do_update demo_config synthesis_fails_env busy_updater)
   \<and> (ai_generation demo_config prompt_fails_env (diffusion_pipeline busy_updater) 100 rgba_chart
         :: py_error + (nat, nat) image) = Inl KeyError
   \<and> surface_manager (do_update demo_config prompt_fails_env busy_updater)
       = Some ((surface_manager_init 800 600 512 512 False)
                 \<lparr>pending_background := Some (Fromarray rgba_chart)\<rparr>)"
proof -
  let ?sm = "surface_manager_init 800 600 512 512 False :: (nat, nat) image surface_manager"
  have h: "fst (fetch_data (yf synthesis_fails_env) (stock_fetcher busy_updater)) = Some 100"
    "render_chart_array synthesis_fails_env 100 = Inr rgba_chart"
    "surface_manager busy_updater = Some ?sm"
    "diffusion_enabled busy_updater"
    by (simp_all add: busy_updater_def synthesis_fails_env_def fetch_data_def)
  have h': "fst (fetch_data (yf prompt_fails_env) (stock_fetcher busy_updater)) = Some 100"
    "render_chart_array prompt_fails_env 100 = Inr rgba_chart"
    by (simp_all add: busy_updater_def prompt_fails_env_def synthesis_fails_env_def
        fetch_data_def)
  have g: "generate_prompt synthesis_fails_env 100 = Inr ''a vibrant Ghibli town''"
    "(generation_step demo_config (gen synthesis_fails_env) (diffusion_pipeline busy_updater)
         ''a vibrant Ghibli town'' (render_cfg_width demo_config) (render_cfg_height demo_config)
          :: py_error + ((nat, nat) image \<times> nat)) = Inl RuntimeError"
    "pipe_loaded (diffusion_pipeline busy_updater)"
    "dp_debug (diffusion_pipeline busy_updater) \<longrightarrow> input_save_ok (gen synthesis_fails_env)"
    by (simp_all add: busy_updater_def synthesis_fails_env_def demo_config_def demo_pipeline_def
        generation_step_def)
  have w: "render_cfg_width demo_config = 512" "render_cfg_height demo_config = 512"
    by (simp_all add: demo_config_def)
  have k: "(ai_generation demo_config prompt_fails_env (diffusion_pipeline busy_updater) 100
              rgba_chart :: py_error + (nat, nat) image) = Inl KeyError"
    by (simp add: ai_generation_def prompt_fails_env_def)
  have a: "surface_manager (do_update demo_config synthesis_fails_env busy_updater)
             = Some (?sm\<lparr>pending_background := Some (New_rgb 512 512 (30, 30, 30))\<rparr>)
           \<and> \<not> is_updating (do_update demo_config synthesis_fails_env busy_updater)"
  proof -
    from synthesis_failure_publishes_fallback [OF h, of demo_config True]
    obtain img where i: "surface_manager (do_update demo_config synthesis_fails_env busy_updater)
                           = Some (?sm\<lparr>pending_background := Some img\<rparr>)"
      and n: "\<not> is_updating (do_update demo_config synthesis_fails_env busy_updater)"
      and imp: "(\<exists>pr e. generate_prompt synthesis_fails_env 100 = Inr pr
                    \<and> (generation_step demo_config (gen synthesis_fails_env)
                         (diffusion_pipeline busy_updater) pr
                         (render_cfg_width demo_config) (render_cfg_height demo_config)
                          :: py_error + ((nat, nat) image \<times> nat)) = Inl e)
                \<and> pipe_loaded (diffusion_pipeline busy_updater)
                \<and> (dp_debug (diffusion_pipeline busy_updater)
                     \<longrightarrow> input_save_ok (gen synthesis_fails_env))
                \<and> 0 \<le> render_cfg_width demo_config \<and> 0 \<le> render_cfg_height demo_config
               \<longrightarrow> img = New_rgb (render_cfg_width demo_config) (render_cfg_height demo_config)
                           (30, 30, 30)"
      by blast
    have "img = New_rgb 512 512 (30, 30, 30)"
      using imp g w by auto
    then show ?thesis using i n by simp
  qed
  have b: "surface_manager (do_update demo_config prompt_fails_env busy_updater)
             = Some (?sm\<lparr>pending_background := Some (Fromarray rgba_chart)\<rparr>)"
  proof -
    have h3: "diffusion_enabled busy_updater" by (rule h(4))
    from synthesis_failure_publishes_fallback [OF h' h(3) h3, of demo_config True]
    obtain img where i: "surface_manager (do_update demo_config prompt_fails_env busy_updater)
                           = Some (?sm\<lparr>pending_background := Some img\<rparr>)"
      and imp: "(\<exists>e. (ai_generation demo_config prompt_fails_env
                          (diffusion_pipeline busy_updater) 100 rgba_chart
                           :: py_error + (nat, nat) image) = Inl e)
                  \<longrightarrow> img = Fromarray rgba_chart"
      by blast
    have "img = Fromarray rgba_chart" using imp k by blast
    then show ?thesis using i by simp
  qed
  from h g(1,2) a k b show ?thesis by simp
qed

text \<open>
  An exception of the debug print inside \<^verbatim>\<open>fetch_data\<close> comes after the new snapshot has
  been cached, so the handler returns that snapshot.
\<close>

lemma fetch_data_print_raises:
  "fetch_data (Print_raises r) f = (Some r, f\<lparr>last_data := Some r\<rparr>)"
  by (simp add: fetch_data_def)

text \<open>
  C8 (fetch-failure contract): when the handler of \<^verbatim>\<open>fetch_data\<close> runs and finds a cached
  snapshot \<open>d\<close> (the fetch raised with \<open>d\<close> cached before, or the debug print raised after
  \<open>d\<close> had been cached), the cycle goes on with \<open>d\<close>: it hands \<open>d\<close> to the overlay and, the
  chart of \<open>d\<close> rendered and a surface manager attached, puts an image into the slot: the
  chart of \<open>d\<close> when synthesis is off or raises, the generated image otherwise. The cache
  then holds \<open>d\<close> and \<^verbatim>\<open>is_updating\<close> is cleared. When the fetch raises and nothing is
  cached, the cycle changes nothing but the flag and the thread attribute: the slot is
  as before and \<^verbatim>\<open>is_updating\<close> is false.
\<close>

theorem fetch_failure_contract:
  fixes env :: "('snap, 'arr, 'gen) cycle_env"
  shows "((yf env = Fetch_raises \<and> last_data (stock_fetcher u) = Some d
            \<or> yf env = Print_raises d)
          \<and> render_chart_array env d = Inr arr \<and> surface_manager u = Some sm
          \<longrightarrow> surface_manager (do_update cfg env u)
                = Some (sm\<lparr>pending_background := Some
                    (if diffusion_enabled u then
                       (case ai_generation cfg env (diffusion_pipeline u) d arr of
                          Inl e \<Rightarrow> Fromarray arr | Inr g \<Rightarrow> g)
                     else Fromarray arr)\<rparr>)
              \<and> stock_overlay (do_update cfg env u)
                  = map_option (update_stock_info d) (stock_overlay u)
              \<and> last_data (stock_fetcher (do_update cfg env u)) = Some d
              \<and> \<not> is_updating (do_update cfg env u))
       \<and> (yf env = Fetch_raises \<and> last_data (stock_fetcher u) = None
          \<longrightarrow> do_update cfg env u = u\<lparr>is_updating := False, update_thread := False\<rparr>
              \<and> surface_manager (do_update cfg env u) = surface_manager u
              \<and> \<not> is_updating (do_update cfg env u))"
proof -
  have a: "surface_manager (do_update cfg env u)
                = Some (sm\<lparr>pending_background := Some
                    (if diffusion_enabled u then
                       (case ai_generation cfg env (diffusion_pipeline u) d arr of
                          Inl e \<Rightarrow> Fromarray arr | Inr g \<Rightarrow> g)
                     else Fromarray arr)\<rparr>)
           \<and> stock_overlay (do_update cfg env u)
               = map_option (update_stock_info d) (stock_overlay u)
           \<and> last_data (stock_fetcher (do_update cfg env u)) = Some d
           \<and> \<not> is_updating (do_update cfg env u)"
    if c: "yf env = Fetch_raises \<and> last_data (stock_fetcher u) = Some d
           \<or> yf env = Print_raises d"
      and r: "render_chart_array env d = Inr arr" and m: "surface_manager u = Some sm"
  proof -
    have f: "fst (fetch_data (yf env) (stock_fetcher u)) = Some d"
      and l: "last_data (snd (fetch_data (yf env) (stock_fetcher u))) = Some d"
      using c by (auto simp: fetch_data_def)
    from do_update_fetched [OF f r m, of cfg] l show ?thesis by simp
  qed
  have b: "do_update cfg env u = u\<lparr>is_updating := False, update_thread := False\<rparr>"
    if "yf env = Fetch_raises" "last_data (stock_fetcher u) = None"
    using that by (simp add: do_update_def cycle_body_def finish_def fetch_data_def)
  from a b show ?thesis by simp
qed

theorem fetch_failure_contract_witness:
  "yf fetch_fails_env = Fetch_raises
   \<and> last_data (stock_fetcher busy_updater) = None
   \<and> do_update demo_config fetch_fails_env busy_updater
       = busy_updater\<lparr>is_updating := False, update_thread := False\<rparr>
   \<and> map_option pending_background
        (surface_manager (do_update demo_config fetch_fails_env busy_updater)) = Some None
   \<and> last_data (stock_fetcher cached_updater) = Some 100
   \<and> render_chart_array fetch_fails_env 100 = Inr rgba_chart
   \<and> surface_manager cached_updater = Some (surface_manager_init 800 600 512 512 False)
   \<and> map_option pending_background
        (surface_manager (do_update demo_config fetch_fails_env cached_updater))
       = Some (Some (Pipe_image 9))
   \<and> \<not> is_updating (do_update demo_config fetch_fails_env cached_updater)"
proof -
  have ai: "(ai_generation demo_config fetch_fails_env (diffusion_pipeline cached_updater) 100
              rgba_chart :: py_error + (nat, nat) image) = Inr (Pipe_image 9)"
    by (simp add: ai_generation_def generate_def generation_step_def fetch_fails_env_def
        cached_updater_def busy_updater_def demo_pipeline_def demo_config_def Let_def)
  have e: "diffusion_enabled cached_updater"
    by (simp add: cached_updater_def busy_updater_def)
  from fetch_failure_contract [of fetch_fails_env busy_updater _ _ _ demo_config]
    fetch_failure_contract [of fetch_fails_env cached_updater 100 rgba_chart
      "surface_manager_init 800 600 512 512 False" demo_config] ai e
  show ?thesis
    by (simp add: fetch_fails_env_def busy_updater_def cached_updater_def
        surface_manager_init_def)
qed

subsection \<open>Scheduling\<close>

text \<open>
  C3 (periodic gating) does not hold for \<^verbatim>\<open>should_update\<close>: it looks at the clock only.
  With a cycle in flight since time 1000 and an interval of 300 seconds it is true at
  time 2000.
\<close>

theorem periodic_gating_counterexample:
  "\<not> (should_update demo_config 2000 busy_updater
        \<longleftrightarrow> (\<not> is_updating busy_updater
             \<and> UPDATE_INTERVAL demo_config \<le> 2000 - last_attempt busy_updater))"
  by (simp add: should_update_def UPDATE_INTERVAL_def demo_config_def busy_updater_def)

text \<open>
  C3 as the code has it: \<^verbatim>\<open>should_update\<close> is true iff the interval has elapsed since
  \<^verbatim>\<open>last_attempt\<close>; the flag is tested by \<^verbatim>\<open>update_background\<close>, so a pass of the render
  loop without a key press starts a cycle iff no cycle is in flight and the interval has
  elapsed; and after a start at time \<open>t\<close>, \<^verbatim>\<open>should_update\<close> is false at every time less
  than one interval later, and no cycle is started then.
\<close>

theorem periodic_gating:
  fixes u :: "('snap, 'arr, 'gen) background_updater"
  shows "(should_update cfg now u \<longleftrightarrow> UPDATE_INTERVAL cfg \<le> now - last_attempt u)
       \<and> (t1 \<le> t2 \<longrightarrow>
            (fst (schedule_tick cfg False t1 t2 u)
               \<longleftrightarrow> \<not> is_updating u \<and> UPDATE_INTERVAL cfg \<le> t1 - last_attempt u))
       \<and> (fst (update_background_updater cfg t u) \<and> now - t < UPDATE_INTERVAL cfg
            \<longrightarrow> \<not> should_update cfg now (snd (update_background_updater cfg t u))
                \<and> \<not> fst (schedule_tick cfg False now t2 (snd (update_background_updater cfg t u))))"
  by (auto simp: should_update_def schedule_tick_def update_background_updater_def Let_def)

theorem periodic_gating_witness:
  "(1300::real) \<le> 1301
   \<and> fst (schedule_tick demo_config False 1300 1301 (busy_updater\<lparr>is_updating := False\<rparr>))
   \<and> \<not> is_updating (busy_updater\<lparr>is_updating := False\<rparr>)
   \<and> UPDATE_INTERVAL demo_config \<le> 1300 - last_attempt (busy_updater\<lparr>is_updating := False\<rparr>)
   \<and> fst (update_background_updater demo_config 1300 (busy_updater\<lparr>is_updating := False\<rparr>))
   \<and> (1300::real) - 1300 < UPDATE_INTERVAL demo_config
   \<and> \<not> should_update demo_config 1300
         (snd (update_background_updater demo_config 1300 (busy_updater\<lparr>is_updating := False\<rparr>)))"
  using periodic_gating [of demo_config 1300 "busy_updater\<lparr>is_updating := False\<rparr>" 1300 1301 1300]
  by (simp add: UPDATE_INTERVAL_def demo_config_def busy_updater_def update_background_updater_def)

text \<open>
  C4 (forced refresh is a no-op while busy) does not hold as stated: pressing \<^verbatim>\<open>r\<close> while
  a cycle is in flight starts no cycle, but \<^verbatim>\<open>last_attempt\<close> changes from 1000 to 0.
\<close>

theorem forced_refresh_counterexample:
  "is_updating busy_updater
   \<and> \<not> fst (schedule_tick demo_config True 1010 1010 busy_updater)
   \<and> last_attempt (snd (schedule_tick demo_config True 1010 1010 busy_updater))
       \<noteq> last_attempt busy_updater"
  by (simp add: schedule_tick_def force_refresh_def should_update_def update_background_updater_def
      UPDATE_INTERVAL_def demo_config_def busy_updater_def Let_def)

text \<open>
  C4 as the code has it: while \<^verbatim>\<open>is_updating\<close> is set, a pass of the render loop in which
  \<^verbatim>\<open>r\<close> was pressed starts no cycle and changes nothing but \<^verbatim>\<open>last_attempt\<close>, which the
  key handler resets to 0.
\<close>

theorem forced_refresh_while_busy:
  fixes u :: "('snap, 'arr, 'gen) background_updater"
  assumes "is_updating u"
  shows "schedule_tick cfg True t1 t2 u = (False, u\<lparr>last_attempt := 0\<rparr>)"
  using assms
  by (simp add: schedule_tick_def force_refresh_def should_update_def update_background_updater_def Let_def)

theorem forced_refresh_while_busy_witness:
  "is_updating busy_updater
   \<and> schedule_tick demo_config True 1010 1011 busy_updater
       = (False, busy_updater\<lparr>last_attempt := 0\<rparr>)"
  using forced_refresh_while_busy [of busy_updater demo_config 1010 1011]
  by (simp add: busy_updater_def)

subsection \<open>Single flight\<close>

lemma count_pc_update:
  "i < length ts \<Longrightarrow>
     count_pc P (ts[i := x]) + (if P (ts ! i) then 1 else 0)
       = count_pc P ts + (if P x then 1 else 0)"
  unfolding count_pc_def
proof (induction ts arbitrary: i)
  case Nil
  then show ?case by simp
next
  case (Cons t ts)
  then show ?case by (cases i) auto
qed

lemma count_pc_snoc: "count_pc P (ts @ [x]) = count_pc P ts + (if P x then 1 else 0)"
  by (simp add: count_pc_def)

lemma count_pc_Nil: "count_pc P [] = 0"
  by (simp add: count_pc_def)

lemma at_flag_le_holders: "count_pc at_flag ts \<le> count_pc holds_lock ts"
  unfolding count_pc_def
proof (induction ts)
  case Nil
  then show ?case by simp
next
  case (Cons t ts)
  then show ?case by (cases t) auto
qed

lemma cycle_body_flags:
  "is_updating (cycle_body cfg env u) = is_updating u"
  "last_attempt (cycle_body cfg env u) = last_attempt u"
  by (auto simp: cycle_body_def publish_def Let_def split: option.splits sum.splits prod.splits)

lemma sched_inv_initial: "sched_inv (initial_system u)"
  by (simp add: sched_inv_def initial_system_def cycles_in_flight_def count_pc_Nil)

text \<open>Moving thread \<open>i\<close> from its statement to \<open>p\<close> changes each count by the two
  statements' contributions.\<close>

lemma counts_set_pc:
  assumes "i < length (threads s)"
  shows "count_pc P (threads (set_pc i p s)) + (if P (threads s ! i) then 1 else 0)
           = count_pc P (threads s) + (if P p then 1 else 0)"
  using count_pc_update [OF assms, of P p] by (simp add: set_pc_def)

lemma set_pc_fields [simp]:
  "updater (set_pc i p s) = updater s" "lock_held (set_pc i p s) = lock_held s"
  by (simp_all add: set_pc_def)

lemma sched_inv_advance:
  assumes inv: "sched_inv s"
  shows "sched_inv (advance cfg i s)"
proof (cases "i < length (threads s)")
  case False
  then show ?thesis using inv by (simp add: advance_def)
next
  case True
  have le: "count_pc at_flag (threads s) \<le> count_pc holds_lock (threads s)"
    by (rule at_flag_le_holders)
  have c: "count_pc P (threads (set_pc i p s')) + (if P (threads s ! i) then 1 else 0)
             = count_pc P (threads s) + (if P p then 1 else 0)"
    if "threads s' = threads s" for P p and s' :: "('a, 'b, 'c) system"
    using counts_set_pc [of i s' P p] True that by simp
  show ?thesis
  proof (cases "threads s ! i")
    case (Call_waiting t)
    show ?thesis
    proof (cases "lock_held s")
      case True
      then show ?thesis using inv Call_waiting \<open>i < length (threads s)\<close>
        by (simp add: advance_def)
    next
      case False
      let ?s' = "set_pc i (Call_locked t) (s\<lparr>lock_held := True\<rparr>)"
      have a: "advance cfg i s = ?s'"
        using False Call_waiting \<open>i < length (threads s)\<close> by (simp add: advance_def)
      have "count_pc holds_lock (threads ?s') = count_pc holds_lock (threads s) + 1"
           "count_pc in_flight (threads ?s') = count_pc in_flight (threads s)"
           "count_pc at_flag (threads ?s') = count_pc at_flag (threads s)"
        using c [of "s\<lparr>lock_held := True\<rparr>" holds_lock "Call_locked t"]
          c [of "s\<lparr>lock_held := True\<rparr>" in_flight "Call_locked t"]
          c [of "s\<lparr>lock_held := True\<rparr>" at_flag "Call_locked t"] Call_waiting
        by simp_all
      then show ?thesis using inv False unfolding a
        by (simp add: sched_inv_def cycles_in_flight_def)
    qed
  next
    case (Call_locked t)
    show ?thesis
    proof (cases "is_updating (updater s)
                  \<or> t - last_attempt (updater s) < UPDATE_INTERVAL cfg")
      case True
      let ?s' = "set_pc i (Call_returned False) (s\<lparr>lock_held := False\<rparr>)"
      have a: "advance cfg i s = ?s'"
        using True Call_locked \<open>i < length (threads s)\<close> by (simp add: advance_def)
      have "count_pc holds_lock (threads ?s') + 1 = count_pc holds_lock (threads s)"
           "count_pc in_flight (threads ?s') = count_pc in_flight (threads s)"
           "count_pc at_flag (threads ?s') = count_pc at_flag (threads s)"
        using c [of "s\<lparr>lock_held := False\<rparr>" holds_lock "Call_returned False"]
          c [of "s\<lparr>lock_held := False\<rparr>" in_flight "Call_returned False"]
          c [of "s\<lparr>lock_held := False\<rparr>" at_flag "Call_returned False"] Call_locked
        by simp_all
      then show ?thesis using inv unfolding a
        by (simp add: sched_inv_def cycles_in_flight_def split: if_splits)
    next
      case False
      let ?s' = "set_pc i (Call_flag t) s"
      have a: "advance cfg i s = ?s'"
        using False Call_locked \<open>i < length (threads s)\<close> by (simp add: advance_def)
      have "count_pc holds_lock (threads ?s') = count_pc holds_lock (threads s)"
           "count_pc in_flight (threads ?s') = count_pc in_flight (threads s)"
        using c [of s holds_lock "Call_flag t"] c [of s in_flight "Call_flag t"] Call_locked
        by simp_all
      then show ?thesis using inv False unfolding a
        by (simp add: sched_inv_def cycles_in_flight_def)
    qed
  next
    case (Call_flag t)
    let ?s1 = "s\<lparr>updater := (updater s)\<lparr>is_updating := True\<rparr>\<rparr>"
    let ?s' = "set_pc i (Call_time t) ?s1"
    have a: "advance cfg i s = ?s'"
      using Call_flag True by (simp add: advance_def)
    have h: "count_pc holds_lock (threads ?s') = count_pc holds_lock (threads s)"
         "count_pc in_flight (threads ?s') = count_pc in_flight (threads s) + 1"
         "count_pc at_flag (threads ?s') + 1 = count_pc at_flag (threads s)"
      using c [of ?s1 holds_lock "Call_time t"] c [of ?s1 in_flight "Call_time t"]
        c [of ?s1 at_flag "Call_time t"] Call_flag
      by simp_all
    have nf: "\<not> is_updating (updater s)"
      using inv h(3) by (auto simp: sched_inv_def)
    show ?thesis using inv nf h le unfolding a
      by (simp add: sched_inv_def cycles_in_flight_def split: if_splits)
  next
    case (Call_time t)
    let ?s1 = "s\<lparr>updater := (updater s)\<lparr>last_attempt := t\<rparr>\<rparr>"
    let ?s' = "set_pc i Call_spawn ?s1"
    have a: "advance cfg i s = ?s'"
      using Call_time True by (simp add: advance_def)
    have "count_pc holds_lock (threads ?s') = count_pc holds_lock (threads s)"
         "count_pc in_flight (threads ?s') = count_pc in_flight (threads s)"
         "count_pc at_flag (threads ?s') = count_pc at_flag (threads s)"
      using c [of ?s1 holds_lock Call_spawn] c [of ?s1 in_flight Call_spawn]
        c [of ?s1 at_flag Call_spawn] Call_time
      by simp_all
    then show ?thesis using inv unfolding a
      by (simp add: sched_inv_def cycles_in_flight_def)
  next
    case Call_spawn
    let ?s1 = "s\<lparr>updater := (updater s)\<lparr>update_thread := True\<rparr>, lock_held := False\<rparr>"
    let ?s2 = "set_pc i (Call_returned True) ?s1"
    let ?s' = "?s2\<lparr>threads := threads ?s2 @ [Work_running]\<rparr>"
    have a: "advance cfg i s = ?s'"
      using Call_spawn True by (simp add: advance_def Let_def)
    have "count_pc holds_lock (threads ?s2) + 1 = count_pc holds_lock (threads s)"
         "count_pc in_flight (threads ?s2) + 1 = count_pc in_flight (threads s)"
         "count_pc at_flag (threads ?s2) = count_pc at_flag (threads s)"
      using c [of ?s1 holds_lock "Call_returned True"] c [of ?s1 in_flight "Call_returned True"]
        c [of ?s1 at_flag "Call_returned True"] Call_spawn
      by simp_all
    then show ?thesis using inv unfolding a
      by (simp add: sched_inv_def cycles_in_flight_def count_pc_snoc split: if_splits)
  next
    case Work_waiting
    show ?thesis
    proof (cases "lock_held s")
      case True
      then show ?thesis using inv Work_waiting \<open>i < length (threads s)\<close>
        by (simp add: advance_def)
    next
      case False
      let ?s' = "set_pc i Work_locked (s\<lparr>lock_held := True\<rparr>)"
      have a: "advance cfg i s = ?s'"
        using False Work_waiting \<open>i < length (threads s)\<close> by (simp add: advance_def)
      have "count_pc holds_lock (threads ?s') = count_pc holds_lock (threads s) + 1"
           "count_pc in_flight (threads ?s') = count_pc in_flight (threads s)"
           "count_pc at_flag (threads ?s') = count_pc at_flag (threads s)"
        using c [of "s\<lparr>lock_held := True\<rparr>" holds_lock Work_locked]
          c [of "s\<lparr>lock_held := True\<rparr>" in_flight Work_locked]
          c [of "s\<lparr>lock_held := True\<rparr>" at_flag Work_locked] Work_waiting
        by simp_all
      then show ?thesis using inv False unfolding a
        by (simp add: sched_inv_def cycles_in_flight_def)
    qed
  next
    case Work_locked
    let ?s1 = "s\<lparr>updater := finish (updater s), lock_held := False\<rparr>"
    let ?s' = "set_pc i Work_done ?s1"
    have a: "advance cfg i s = ?s'"
      using Work_locked True by (simp add: advance_def)
    have "count_pc holds_lock (threads ?s') + 1 = count_pc holds_lock (threads s)"
         "count_pc in_flight (threads ?s') + 1 = count_pc in_flight (threads s)"
         "count_pc at_flag (threads ?s') = count_pc at_flag (threads s)"
      using c [of ?s1 holds_lock Work_done] c [of ?s1 in_flight Work_done]
        c [of ?s1 at_flag Work_done] Work_locked
      by simp_all
    then show ?thesis using inv unfolding a
      by (simp add: sched_inv_def cycles_in_flight_def finish_def split: if_splits)
  qed (use inv True in \<open>simp_all add: advance_def\<close>)
qed

lemma sched_inv_exec:
  assumes inv: "sched_inv s"
  shows "sched_inv (exec cfg e s)"
proof (cases e)
  case (Call t)
  then show ?thesis using inv
    by (simp add: exec_def sched_inv_def cycles_in_flight_def count_pc_snoc)
next
  case Press_r
  then show ?thesis using inv
    by (simp add: exec_def sched_inv_def cycles_in_flight_def force_refresh_def)
next
  case (Advance i)
  then show ?thesis using sched_inv_advance [OF inv] by (simp add: exec_def)
next
  case (Run_cycle i env)
  show ?thesis
  proof (cases "i < length (threads s) \<and> threads s ! i = Work_running")
    case False
    then show ?thesis using inv Run_cycle by (auto simp: exec_def)
  next
    case True
    let ?s1 = "s\<lparr>updater := cycle_body cfg env (updater s)\<rparr>"
    let ?s' = "set_pc i Work_waiting ?s1"
    have a: "exec cfg e s = ?s'" using True Run_cycle by (simp add: exec_def)
    have "count_pc holds_lock (threads ?s') = count_pc holds_lock (threads s)"
         "count_pc in_flight (threads ?s') = count_pc in_flight (threads s)"
         "count_pc at_flag (threads ?s') = count_pc at_flag (threads s)"
      using counts_set_pc [of i ?s1 holds_lock Work_waiting]
        counts_set_pc [of i ?s1 in_flight Work_waiting]
        counts_set_pc [of i ?s1 at_flag Work_waiting] True
      by simp_all
    then show ?thesis using inv unfolding a
      by (simp add: sched_inv_def cycles_in_flight_def cycle_body_flags)
  qed
next
  case (Start_fails i)
  show ?thesis
  proof (cases "i < length (threads s) \<and> threads s ! i = Call_spawn")
    case False
    then show ?thesis using inv Start_fails by (auto simp: exec_def)
  next
    case True
    let ?s1 = "s\<lparr>updater := (updater s)\<lparr>update_thread := True\<rparr>, lock_held := False\<rparr>"
    let ?s' = "set_pc i Call_raised ?s1"
    have a: "exec cfg e s = ?s'" using True Start_fails by (simp add: exec_def)
    have "count_pc holds_lock (threads ?s') + 1 = count_pc holds_lock (threads s)"
         "count_pc in_flight (threads ?s') + 1 = count_pc in_flight (threads s)"
         "count_pc at_flag (threads ?s') = count_pc at_flag (threads s)"
      using counts_set_pc [of i ?s1 holds_lock Call_raised]
        counts_set_pc [of i ?s1 in_flight Call_raised]
        counts_set_pc [of i ?s1 at_flag Call_raised] True
      by simp_all
    then show ?thesis using inv unfolding a
      by (simp add: sched_inv_def cycles_in_flight_def split: if_splits)
  qed
qed

lemma sched_inv_run: "sched_inv s \<Longrightarrow> sched_inv (run cfg es s)"
  by (induction es arbitrary: s) (simp_all add: sched_inv_exec)

lemma at_flag_count_pos:
  "i < length ts \<Longrightarrow> at_flag (ts ! i) \<Longrightarrow> 0 < count_pc at_flag ts"
  using nth_mem [of i ts] by (auto simp: count_pc_def filter_empty_conv)

text \<open>
  C1 (single flight): after every schedule of calls of \<^verbatim>\<open>update_background\<close>, key
  presses, thread steps and worker runs, at most one cycle is in flight. A call that is
  about to set \<^verbatim>\<open>is_updating\<close> (it observes success) finds no cycle in flight, and its
  assignment makes it the one; a call that reaches the guard while a cycle is in flight
  returns without starting anything and without touching the updater.
\<close>

theorem single_flight:
  fixes u :: "('snap, 'arr, 'gen) background_updater"
  shows "(let s = run cfg es (initial_system u)
          in cycles_in_flight s \<le> 1
           \<and> (\<forall>i t. i < length (threads s) \<and> threads s ! i = Call_flag t
                 \<longrightarrow> cycles_in_flight s = 0 \<and> cycles_in_flight (advance cfg i s) = 1)
           \<and> (\<forall>i t. i < length (threads s) \<and> threads s ! i = Call_locked t
                    \<and> 0 < cycles_in_flight s
                 \<longrightarrow> threads (advance cfg i s) = (threads s)[i := Call_returned False]
                   \<and> updater (advance cfg i s) = updater s))"
proof -
  let ?s = "run cfg es (initial_system u)"
  have inv: "sched_inv ?s" by (rule sched_inv_run) (rule sched_inv_initial)
  have 1: "cycles_in_flight ?s \<le> 1" using inv by (simp add: sched_inv_def)
  have 2: "cycles_in_flight ?s = 0 \<and> cycles_in_flight (advance cfg i ?s) = 1"
    if i: "i < length (threads ?s)" and f: "threads ?s ! i = Call_flag t" for i t
  proof -
    have "0 < count_pc at_flag (threads ?s)"
      using at_flag_count_pos [OF i] f by simp
    then have nu: "\<not> is_updating (updater ?s)" using inv by (auto simp: sched_inv_def)
    then have z: "cycles_in_flight ?s = 0" using inv by (simp add: sched_inv_def)
    have "count_pc in_flight (threads (advance cfg i ?s)) = count_pc in_flight (threads ?s) + 1"
      using counts_set_pc [of i "?s\<lparr>updater := (updater ?s)\<lparr>is_updating := True\<rparr>\<rparr>"
          in_flight "Call_time t"] i f
      by (simp add: advance_def)
    then show ?thesis using z by (simp add: cycles_in_flight_def)
  qed
  have 3: "threads (advance cfg i ?s) = (threads ?s)[i := Call_returned False]
           \<and> updater (advance cfg i ?s) = updater ?s"
    if i: "i < length (threads ?s)" and f: "threads ?s ! i = Call_locked t"
      and p: "0 < cycles_in_flight ?s" for i t
  proof -
    have "is_updating (updater ?s)" using inv p by (auto simp: sched_inv_def)
    then show ?thesis using i f by (simp add: advance_def set_pc_def)
  qed
  from 1 2 3 show ?thesis unfolding Let_def by blast
qed

lemmas run_eval = exec_def advance_def set_pc_def initial_system_def busy_updater_def
  demo_config_def UPDATE_INTERVAL_def cycles_in_flight_def count_pc_def Let_def finish_def

theorem single_flight_witness:
  "(let s = run demo_config [Call 1000, Advance 0, Advance 0] (initial_system busy_updater)
    in threads s = [Call_flag 1000] \<and> cycles_in_flight s = 0
       \<and> cycles_in_flight (advance demo_config 0 s) = 1)
   \<and> (let s = run demo_config
                 [Call 1000, Advance 0, Advance 0, Advance 0, Advance 0, Advance 0,
                  Call 1001, Advance 2] (initial_system busy_updater)
      in threads s = [Call_returned True, Work_running, Call_locked 1001]
         \<and> cycles_in_flight s = 1
         \<and> threads (advance demo_config 2 s)
             = [Call_returned True, Work_running, Call_returned False])"
proof -
  let ?s1 = "run demo_config [Call 1000, Advance 0, Advance 0] (initial_system busy_updater)"
  let ?s2 = "run demo_config
                 [Call 1000, Advance 0, Advance 0, Advance 0, Advance 0, Advance 0,
                  Call 1001, Advance 2] (initial_system busy_updater)"
  have t1: "threads ?s1 = [Call_flag 1000]" by (simp add: run_eval)
  have t2: "threads ?s2 = [Call_returned True, Work_running, Call_locked 1001]"
    by (simp add: run_eval)
  have f2: "cycles_in_flight ?s2 = 1"
    unfolding cycles_in_flight_def count_pc_def t2 by simp
  from single_flight [of demo_config "[Call 1000, Advance 0, Advance 0]" busy_updater]
  have a: "cycles_in_flight ?s1 = 0 \<and> cycles_in_flight (advance demo_config 0 ?s1) = 1"
    unfolding Let_def using t1 by simp
  from single_flight [of demo_config "[Call 1000, Advance 0, Advance 0, Advance 0, Advance 0, Advance 0,
                  Call 1001, Advance 2]" busy_updater]
  have b: "threads (advance demo_config 2 ?s2) = (threads ?s2)[2 := Call_returned False]"
    unfolding Let_def using t2 f2 by simp
  show ?thesis unfolding Let_def using a b t1 t2 f2 by simp
qed

end
